theory Spec2Isabelle
  imports Complex_Main
begin

section \<open>Values of the two numeric backends\<close>

text \<open>
  The module \<^verbatim>\<open>metasim/utils/humanoid_reward_util.py\<close> holds four functions:
  \<^verbatim>\<open>_sigmoids\<close> and \<^verbatim>\<open>tolerance\<close> over NumPy, \<^verbatim>\<open>_sigmoids_tensor\<close> and
  \<^verbatim>\<open>tolerance_tensor\<close> over PyTorch. Floating-point numbers are modelled as the
  reals they approximate: arithmetic is exact, there is no rounding, no NaN and no
  infinity. Every statement below is a statement about this exact-arithmetic reading of
  the code.

  The four \<^verbatim>\<open>ValueError\<close>s of the module are told apart by the check that raises them.
  \<open>TypeError\<close> is what PyTorch raises when an operator is handed a foreign array.
\<close>

datatype error = InvalidBounds | InvalidMargin | InvalidParameter | UnknownShape | TypeError

text \<open>
  A NumPy-side value is a scalar (a Python float or a NumPy scalar, the values on which
  \<^verbatim>\<open>np.isscalar\<close> holds) or an \<^verbatim>\<open>ndarray\<close> with its shape and its elements in row-major
  order. A zero-dimensional array has shape \<open>[]\<close> and one element.
\<close>

datatype 'a nd = Scalar 'a | NdArray "nat list" "'a list"

fun shape_of :: "'a nd \<Rightarrow> nat list" where
  "shape_of (Scalar _) = []"
| "shape_of (NdArray s _) = s"

fun elems :: "'a nd \<Rightarrow> 'a list" where
  "elems (Scalar a) = [a]"
| "elems (NdArray _ xs) = xs"

fun np_isscalar :: "'a nd \<Rightarrow> bool" where
  "np_isscalar (Scalar _) = True"
| "np_isscalar (NdArray _ _) = False"

text \<open>
  Broadcasting of an operand against \<open>n\<close> elements: a scalar is repeated, an array
  stands for itself (every array of one call has the shape of the input \<open>x\<close>).
\<close>

fun expand :: "nat \<Rightarrow> 'a nd \<Rightarrow> 'a list" where
  "expand n (Scalar a) = replicate n a"
| "expand n (NdArray _ xs) = xs"

text \<open>
  \<^verbatim>\<open>np.where(cond, a, b)\<close>: the elementwise choice. The result is always an
  \<^verbatim>\<open>ndarray\<close>, zero-dimensional when the condition is a scalar.
\<close>

definition np_where :: "bool nd \<Rightarrow> 'a nd \<Rightarrow> 'a nd \<Rightarrow> 'a nd" where
  "np_where c a b =
     (let n = length (elems c)
      in NdArray (shape_of c)
           (map (\<lambda>(p, y, z). if p then y else z)
                (zip (elems c) (zip (expand n a) (expand n b)))))"

text \<open>
  \<^verbatim>\<open>float(value)\<close> accepts a scalar or an array of exactly one element.
\<close>

fun py_float :: "real nd \<Rightarrow> error + real nd" where
  "py_float (Scalar r) = Inr (Scalar r)"
| "py_float (NdArray s [r]) = Inr (Scalar r)"
| "py_float (NdArray s _) = Inl TypeError"

text \<open>
  A PyTorch tensor, with its shape and elements. An operand of \<^verbatim>\<open>torch.where\<close> is a
  Python number, a tensor, or (by mistake of the caller) a NumPy array.
\<close>

datatype 'a tensor = Tensor "nat list" "'a list"

fun tshape :: "'a tensor \<Rightarrow> nat list" where
  "tshape (Tensor s _) = s"

fun tdata :: "'a tensor \<Rightarrow> 'a list" where
  "tdata (Tensor _ xs) = xs"

datatype operand = Number real | TorchTensor "real tensor" | NumpyArray "real nd"

fun texpand :: "nat \<Rightarrow> operand \<Rightarrow> error + real list" where
  "texpand n (Number a) = Inr (replicate n a)"
| "texpand n (TorchTensor t) = Inr (tdata t)"
| "texpand n (NumpyArray _) = Inl TypeError"

text \<open>
  \<^verbatim>\<open>torch.where(cond, a, b)\<close>: the elementwise choice between numbers and tensors; an
  \<^verbatim>\<open>ndarray\<close> operand is rejected with a \<^verbatim>\<open>TypeError\<close>.
\<close>

definition torch_where :: "bool tensor \<Rightarrow> operand \<Rightarrow> operand \<Rightarrow> error + real tensor" where
  "torch_where c a b =
     (let n = length (tdata c)
      in case texpand n a of
           Inl e \<Rightarrow> Inl e
         | Inr ys \<Rightarrow>
             (case texpand n b of
                Inl e \<Rightarrow> Inl e
              | Inr zs \<Rightarrow>
                  Inr (Tensor (tshape c)
                         (map (\<lambda>(p, y, z). if p then y else z) (zip (tdata c) (zip ys zs))))))"

text \<open>
  NumPy reads a tensor through its array interface (a tensor in host memory that does
  not track gradients; any other tensor makes the conversion itself raise).
\<close>

fun as_array :: "'a tensor \<Rightarrow> 'a nd" where
  "as_array (Tensor s xs) = NdArray s xs"

section \<open>The sigmoid evaluator\<close>

definition recognized_kinds :: "string list" where
  "recognized_kinds =
     [''gaussian'', ''hyperbolic'', ''long_tail'', ''reciprocal'',
      ''cosine'', ''linear'', ''quadratic'', ''tanh_squared'']"

text \<open>
  \<^verbatim>\<open>_sigmoids(x, value_at_1, sigmoid)\<close>. The range check on \<open>value_at_1\<close> comes first,
  for every string \<open>sigmoid\<close>; the chain of comparisons on the name follows, and its
  last branch raises for an unknown name. Arithmetic between an array and a number is
  elementwise (\<open>map_nd\<close>).
\<close>

definition sigmoids :: "real nd \<Rightarrow> real \<Rightarrow> string \<Rightarrow> error + real nd" where
  "sigmoids x value_at_1 sigmoid =
     (if (if sigmoid \<in> set [''cosine'', ''linear'', ''quadratic'']
          then \<not> (0 \<le> value_at_1 \<and> value_at_1 < 1)
          else \<not> (0 < value_at_1 \<and> value_at_1 < 1))
      then Inl InvalidParameter
      else if sigmoid = ''gaussian'' then
        (let scale = sqrt (- 2 * ln value_at_1)
         in Inr (map_nd (\<lambda>xi. exp (- 0.5 * (xi * scale) ^ 2)) x))
      else if sigmoid = ''hyperbolic'' then
        (let scale = arcosh (1 / value_at_1)
         in Inr (map_nd (\<lambda>xi. 1 / cosh (xi * scale)) x))
      else if sigmoid = ''long_tail'' then
        (let scale = sqrt (1 / value_at_1 - 1)
         in Inr (map_nd (\<lambda>xi. 1 / ((xi * scale) ^ 2 + 1)) x))
      else if sigmoid = ''reciprocal'' then
        (let scale = 1 / value_at_1 - 1
         in Inr (map_nd (\<lambda>xi. 1 / (\<bar>xi\<bar> * scale + 1)) x))
      else if sigmoid = ''cosine'' then
        (let scale = arccos (2 * value_at_1 - 1) / pi;
             scaled_x = map_nd (\<lambda>xi. xi * scale) x;
             cos_pi_scaled_x = map_nd (\<lambda>y. cos (pi * y)) scaled_x
         in Inr (np_where (map_nd (\<lambda>y. \<bar>y\<bar> < 1) scaled_x)
                          (map_nd (\<lambda>c. (1 + c) / 2) cos_pi_scaled_x)
                          (Scalar 0)))
      else if sigmoid = ''linear'' then
        (let scale = 1 - value_at_1;
             scaled_x = map_nd (\<lambda>xi. xi * scale) x
         in Inr (np_where (map_nd (\<lambda>y. \<bar>y\<bar> < 1) scaled_x)
                          (map_nd (\<lambda>y. 1 - y) scaled_x)
                          (Scalar 0)))
      else if sigmoid = ''quadratic'' then
        (let scale = sqrt (1 - value_at_1);
             scaled_x = map_nd (\<lambda>xi. xi * scale) x
         in Inr (np_where (map_nd (\<lambda>y. \<bar>y\<bar> < 1) scaled_x)
                          (map_nd (\<lambda>y. 1 - y ^ 2) scaled_x)
                          (Scalar 0)))
      else if sigmoid = ''tanh_squared'' then
        (let scale = artanh (sqrt (1 - value_at_1))
         in Inr (map_nd (\<lambda>xi. 1 - tanh (xi * scale) ^ 2) x))
      else Inl UnknownShape)"

text \<open>
  \<^verbatim>\<open>_sigmoids_tensor(x, value_at_1, sigmoid)\<close>: the same chain over tensors
  (\<open>value_at_1\<close> is a zero-dimensional tensor, read here as its one element). The
  \<open>linear\<close> and \<open>quadratic\<close> branches select with \<^verbatim>\<open>torch.where\<close>; the \<open>cosine\<close> branch
  selects with \<^verbatim>\<open>np.where\<close>, whose result is a NumPy array.
\<close>

definition sigmoids_tensor :: "real tensor \<Rightarrow> real \<Rightarrow> string \<Rightarrow> error + operand" where
  "sigmoids_tensor x value_at_1 sigmoid =
     (if (if sigmoid \<in> set [''cosine'', ''linear'', ''quadratic'']
          then \<not> (0 \<le> value_at_1 \<and> value_at_1 < 1)
          else \<not> (0 < value_at_1 \<and> value_at_1 < 1))
      then Inl InvalidParameter
      else if sigmoid = ''gaussian'' then
        (let scale = sqrt (- 2 * ln value_at_1)
         in Inr (TorchTensor (map_tensor (\<lambda>xi. exp (- 0.5 * (xi * scale) ^ 2)) x)))
      else if sigmoid = ''hyperbolic'' then
        (let scale = arcosh (1 / value_at_1)
         in Inr (TorchTensor (map_tensor (\<lambda>xi. 1 / cosh (xi * scale)) x)))
      else if sigmoid = ''long_tail'' then
        (let scale = sqrt (1 / value_at_1 - 1)
         in Inr (TorchTensor (map_tensor (\<lambda>xi. 1 / ((xi * scale) ^ 2 + 1)) x)))
      else if sigmoid = ''reciprocal'' then
        (let scale = 1 / value_at_1 - 1
         in Inr (TorchTensor (map_tensor (\<lambda>xi. 1 / (\<bar>xi\<bar> * scale + 1)) x)))
      else if sigmoid = ''cosine'' then
        (let scale = arccos (2 * value_at_1 - 1) / pi;
             scaled_x = map_tensor (\<lambda>xi. xi * scale) x;
             cos_pi_scaled_x = map_tensor (\<lambda>y. cos (pi * y)) scaled_x
         in Inr (NumpyArray
                   (np_where (as_array (map_tensor (\<lambda>y. \<bar>y\<bar> < 1) scaled_x))
                             (as_array (map_tensor (\<lambda>c. (1 + c) / 2) cos_pi_scaled_x))
                             (Scalar 0))))
      else if sigmoid = ''linear'' then
        (let scale = 1 - value_at_1;
             scaled_x = map_tensor (\<lambda>xi. xi * scale) x
         in map_sum id TorchTensor
              (torch_where (map_tensor (\<lambda>y. \<bar>y\<bar> < 1) scaled_x)
                           (TorchTensor (map_tensor (\<lambda>y. 1 - y) scaled_x))
                           (Number 0)))
      else if sigmoid = ''quadratic'' then
        (let scale = sqrt (1 - value_at_1);
             scaled_x = map_tensor (\<lambda>xi. xi * scale) x
         in map_sum id TorchTensor
              (torch_where (map_tensor (\<lambda>y. \<bar>y\<bar> < 1) scaled_x)
                           (TorchTensor (map_tensor (\<lambda>y. 1 - y ^ 2) scaled_x))
                           (Number 0)))
      else if sigmoid = ''tanh_squared'' then
        (let scale = artanh (sqrt (1 - value_at_1))
         in Inr (TorchTensor (map_tensor (\<lambda>xi. 1 - tanh (xi * scale) ^ 2) x)))
      else Inl UnknownShape)"

section \<open>The tolerance scorer\<close>

text \<open>
  \<^verbatim>\<open>tolerance(x, bounds, margin, sigmoid, value_at_margin)\<close>. The two checks on the
  bounds and the margin come first. With a positive margin \<^verbatim>\<open>_sigmoids\<close> is called
  once on the whole array of normalised distances, also when every element is in
  bounds, so its errors do not depend on \<open>x\<close>. A scalar input is returned through
  \<^verbatim>\<open>float\<close>.
\<close>

definition tolerance :: "real nd \<Rightarrow> real \<times> real \<Rightarrow> real \<Rightarrow> string \<Rightarrow> real \<Rightarrow> error + real nd" where
  "tolerance x bounds margin sigmoid value_at_margin =
     (let (lower, upper) = bounds
      in if lower > upper then Inl InvalidBounds
         else if margin < 0 then Inl InvalidMargin
         else
           (let in_bounds = map_nd (\<lambda>xi. lower \<le> xi \<and> xi \<le> upper) x
            in case
                 (if margin = 0 then Inr (np_where in_bounds (Scalar 1) (Scalar 0))
                  else
                    (let d = map_nd (\<lambda>y. y / margin)
                               (np_where (map_nd (\<lambda>xi. xi < lower) x)
                                         (map_nd (\<lambda>xi. lower - xi) x)
                                         (map_nd (\<lambda>xi. xi - upper) x))
                     in case sigmoids d value_at_margin sigmoid of
                          Inl e \<Rightarrow> Inl e
                        | Inr s \<Rightarrow> Inr (np_where in_bounds (Scalar 1) s)))
               of
                 Inl e \<Rightarrow> Inl e
               | Inr v \<Rightarrow> if np_isscalar x then py_float v else Inr v))"

text \<open>
  \<^verbatim>\<open>tolerance_tensor(x, bounds, margin, sigmoid, value_at_margin)\<close>: the same steps
  with \<^verbatim>\<open>torch.where\<close>; the input is a tensor and the value is returned as it is.
\<close>

definition tolerance_tensor ::
  "real tensor \<Rightarrow> real \<times> real \<Rightarrow> real \<Rightarrow> string \<Rightarrow> real \<Rightarrow> error + real tensor" where
  "tolerance_tensor x bounds margin sigmoid value_at_margin =
     (let (lower, upper) = bounds
      in if lower > upper then Inl InvalidBounds
         else if margin < 0 then Inl InvalidMargin
         else
           (let in_bounds = map_tensor (\<lambda>xi. lower \<le> xi \<and> xi \<le> upper) x
            in if margin = 0 then torch_where in_bounds (Number 1) (Number 0)
               else
                 (case torch_where (map_tensor (\<lambda>xi. xi < lower) x)
                                   (TorchTensor (map_tensor (\<lambda>xi. lower - xi) x))
                                   (TorchTensor (map_tensor (\<lambda>xi. xi - upper) x)) of
                    Inl e \<Rightarrow> Inl e
                  | Inr w \<Rightarrow>
                      (let dd = map_tensor (\<lambda>y. y / margin) w
                       in case sigmoids_tensor dd value_at_margin sigmoid of
                            Inl e \<Rightarrow> Inl e
                          | Inr s \<Rightarrow> torch_where in_bounds (Number 1) s))))"

section \<open>The elementwise reading\<close>

text \<open>
  The functions below are not part of the module: they name what the module computes
  for one element, so that the properties of \<open>tolerance\<close> can be stated and proved
  elementwise. \<open>valid_value_at_1\<close> is the range check of \<^verbatim>\<open>_sigmoids\<close>;
  \<open>decay\<close> is the formula it applies to one normalised distance; \<open>score\<close> is what
  \<^verbatim>\<open>tolerance\<close> computes for one element; \<open>result_of\<close> wraps the elements the way
  \<^verbatim>\<open>tolerance\<close> returns them. The lemmas \<open>sigmoids_array\<close>, \<open>tolerance_value\<close> and
  \<open>tolerance_tensor_value\<close> prove that the code computes exactly these.
\<close>

definition decay :: "string \<Rightarrow> real \<Rightarrow> real \<Rightarrow> real" where
  "decay sigmoid v d =
     (if sigmoid = ''gaussian'' then exp (- 0.5 * (d * sqrt (- 2 * ln v)) ^ 2)
      else if sigmoid = ''hyperbolic'' then 1 / cosh (d * arcosh (1 / v))
      else if sigmoid = ''long_tail'' then 1 / ((d * sqrt (1 / v - 1)) ^ 2 + 1)
      else if sigmoid = ''reciprocal'' then 1 / (\<bar>d\<bar> * (1 / v - 1) + 1)
      else if sigmoid = ''cosine'' then
        (if \<bar>d * (arccos (2 * v - 1) / pi)\<bar> < 1
         then (1 + cos (pi * (d * (arccos (2 * v - 1) / pi)))) / 2 else 0)
      else if sigmoid = ''linear'' then
        (if \<bar>d * (1 - v)\<bar> < 1 then 1 - d * (1 - v) else 0)
      else if sigmoid = ''quadratic'' then
        (if \<bar>d * sqrt (1 - v)\<bar> < 1 then 1 - (d * sqrt (1 - v)) ^ 2 else 0)
      else 1 - tanh (d * artanh (sqrt (1 - v))) ^ 2)"

definition valid_value_at_1 :: "string \<Rightarrow> real \<Rightarrow> bool" where
  "valid_value_at_1 sigmoid v =
     (if sigmoid \<in> set [''cosine'', ''linear'', ''quadratic'']
      then 0 \<le> v \<and> v < 1 else 0 < v \<and> v < 1)"

definition score :: "real \<Rightarrow> real \<Rightarrow> real \<Rightarrow> string \<Rightarrow> real \<Rightarrow> real \<Rightarrow> real" where
  "score lower upper margin sigmoid v xi =
     (if lower \<le> xi \<and> xi \<le> upper then 1
      else if margin = 0 then 0
      else decay sigmoid v ((if xi < lower then lower - xi else xi - upper) / margin))"

fun result_of :: "real nd \<Rightarrow> real list \<Rightarrow> real nd" where
  "result_of (Scalar _) ys = Scalar (hd ys)"
| "result_of (NdArray s _) ys = NdArray s ys"

section \<open>Elementwise selection\<close>

lemma np_where_aaa:
  "np_where (NdArray s (map f xs)) (NdArray s1 (map g xs)) (NdArray s2 (map h xs))
     = NdArray s (map (\<lambda>x. if f x then g x else h x) xs)"
  by (induction xs) (simp_all add: np_where_def)

lemma np_where_aas:
  "np_where (NdArray s (map f xs)) (NdArray s1 (map g xs)) (Scalar b)
     = NdArray s (map (\<lambda>x. if f x then g x else b) xs)"
  by (induction xs) (simp_all add: np_where_def)

lemma np_where_asa:
  "np_where (NdArray s (map f xs)) (Scalar a) (NdArray s2 (map h xs))
     = NdArray s (map (\<lambda>x. if f x then a else h x) xs)"
  by (induction xs) (simp_all add: np_where_def)

lemma np_where_ass:
  "np_where (NdArray s (map f xs)) (Scalar a) (Scalar b)
     = NdArray s (map (\<lambda>x. if f x then a else b) xs)"
  by (induction xs) (simp_all add: np_where_def)

lemma np_where_sss:
  "np_where (Scalar c) (Scalar a) (Scalar b) = NdArray [] [if c then a else b]"
  by (simp add: np_where_def)

lemma np_where_ssa:
  "np_where (Scalar c) (Scalar a) (NdArray s [b]) = NdArray [] [if c then a else b]"
  by (simp add: np_where_def)

lemmas np_where_simps = np_where_aaa np_where_aas np_where_asa np_where_ass np_where_sss np_where_ssa

lemma sigmoids_array:
  assumes "sigmoid \<in> set recognized_kinds" "valid_value_at_1 sigmoid v"
  shows "sigmoids (NdArray s (map f xs)) v sigmoid = Inr (NdArray s (map (\<lambda>x. decay sigmoid v (f x)) xs))"
  using assms
  by (auto simp add: sigmoids_def recognized_kinds_def valid_value_at_1_def decay_def np_where_simps o_def Let_def)

lemma tolerance_array:
  assumes "lower \<le> upper" "0 < margin" "sigmoid \<in> set recognized_kinds" "valid_value_at_1 sigmoid v"
  shows "tolerance (NdArray s xs) (lower, upper) margin sigmoid v
           = Inr (NdArray s (map (score lower upper margin sigmoid v) xs))"
proof -
  have "sigmoids (NdArray s (map (\<lambda>x. (if x < lower then lower - x else x - upper) / margin) xs)) v sigmoid
          = Inr (NdArray s (map (\<lambda>x. decay sigmoid v ((if x < lower then lower - x else x - upper) / margin)) xs))"
    by (rule sigmoids_array [OF assms(3,4)])
  then show ?thesis using assms(1,2)
    by (simp add: tolerance_def np_where_simps o_def score_def cong: if_cong)
qed

section \<open>Facts of real analysis used below\<close>

lemma tanh_artanh_real:
  fixes y :: real
  assumes "- 1 < y" "y < 1"
  shows "tanh (artanh y) = y"
proof -
  have pos: "0 < (1 + y) / (1 - y)" using assms by simp
  have "exp (- 2 * artanh y) = inverse (exp (ln ((1 + y) / (1 - y))))"
    by (simp add: artanh_def exp_minus)
  also have "\<dots> = (1 - y) / (1 + y)" using pos by (simp add: exp_ln)
  finally have e: "exp (- 2 * artanh y) = (1 - y) / (1 + y)" .
  have "tanh (artanh y) = (1 - (1 - y) / (1 + y)) / (1 + (1 - y) / (1 + y))"
    unfolding tanh_real_altdef e ..
  also have "\<dots> = y" using assms by (simp add: field_simps)
  finally show ?thesis .
qed

lemma artanh_pos_real:
  fixes y :: real
  assumes "0 < y" "y < 1"
  shows "0 < artanh y"
proof -
  have "1 < (1 + y) / (1 - y)" using assms by (simp add: field_simps)
  then have "0 < ln ((1 + y) / (1 - y))" by simp
  then show ?thesis by (simp add: artanh_def)
qed

lemma gaussian_scale_pos: "0 < v \<Longrightarrow> v < 1 \<Longrightarrow> 0 < sqrt (- 2 * ln v)"
  by simp

lemma hyperbolic_scale_pos: "0 < v \<Longrightarrow> v < (1::real) \<Longrightarrow> 0 < arcosh (1 / v)"
  by (simp add: field_simps)

lemma long_tail_scale_pos: "0 < v \<Longrightarrow> v < (1::real) \<Longrightarrow> 0 < sqrt (1 / v - 1)"
  by (simp add: field_simps)

lemma reciprocal_scale_pos: "0 < v \<Longrightarrow> v < (1::real) \<Longrightarrow> 0 < 1 / v - 1"
  by (simp add: field_simps)

lemma cosine_scale_bounds:
  assumes "0 \<le> v" "v < (1::real)"
  shows "0 < arccos (2 * v - 1) / pi" "arccos (2 * v - 1) / pi \<le> 1"
proof -
  have "arccos (2 * v - 1) \<noteq> 0"
  proof
    assume "arccos (2 * v - 1) = 0"
    then have "cos (arccos (2 * v - 1)) = 1" by simp
    then show False using assms by simp
  qed
  moreover have "0 \<le> arccos (2 * v - 1)" using assms by (intro arccos_lbound) auto
  ultimately show "0 < arccos (2 * v - 1) / pi" by simp
  have "arccos (2 * v - 1) \<le> pi" using assms by (intro arccos_ubound) auto
  then show "arccos (2 * v - 1) / pi \<le> 1" by simp
qed

lemma quadratic_scale_pos: "v < (1::real) \<Longrightarrow> 0 < sqrt (1 - v)"
  by simp

lemma tanh_squared_scale_pos: "0 < v \<Longrightarrow> v < (1::real) \<Longrightarrow> 0 < artanh (sqrt (1 - v))"
  by (rule artanh_pos_real) (simp_all add: real_sqrt_lt_1_iff)

section \<open>The eight shapes\<close>

lemma sq_mono_scaled:
  fixes s :: real
  assumes "0 \<le> d1" "d1 \<le> d2" "0 \<le> s"
  shows "(d1 * s)\<^sup>2 \<le> (d2 * s)\<^sup>2"
proof -
  have "0 \<le> d1 * s" using assms by simp
  moreover have "d1 * s \<le> d2 * s" using assms by (simp add: mult_right_mono)
  ultimately show ?thesis by (simp add: power_mono)
qed

lemma recip_succ_bounds:
  fixes t :: real
  assumes "0 < t"
  shows "1 / (t + 1) < 1" "0 \<le> 1 / (t + 1)"
  using assms by simp_all

lemma sq_pos_scaled:
  fixes s :: real
  assumes "d \<noteq> 0" "0 < s"
  shows "0 < (d * s)\<^sup>2"
  using assms by simp

subsection \<open>gaussian\<close>

lemma gaussian_zero: "decay ''gaussian'' v 0 = 1"
  by (simp add: decay_def)

lemma gaussian_range:
  assumes "0 < v" "v < 1" "d \<noteq> 0"
  shows "0 \<le> decay ''gaussian'' v d" "decay ''gaussian'' v d < 1"
proof -
  have "0 < (d * sqrt (- 2 * ln v))\<^sup>2"
    using assms by (intro sq_pos_scaled gaussian_scale_pos)
  then show "decay ''gaussian'' v d < 1" by (simp add: decay_def)
  show "0 \<le> decay ''gaussian'' v d" by (simp add: decay_def)
qed

lemma gaussian_at_1:
  assumes "0 < v" "v < 1"
  shows "decay ''gaussian'' v 1 = v"
proof -
  have "0 \<le> - 2 * ln v" using assms by simp
  then have "(sqrt (- 2 * ln v))\<^sup>2 = - 2 * ln v" by (rule real_sqrt_pow2)
  then have "decay ''gaussian'' v 1 = exp (ln v)" by (simp add: decay_def)
  then show ?thesis using assms by simp
qed

lemma gaussian_mono:
  assumes "0 < v" "v < 1" "0 \<le> d1" "d1 \<le> d2"
  shows "decay ''gaussian'' v d2 \<le> decay ''gaussian'' v d1"
proof -
  have "0 \<le> sqrt (- 2 * ln v)" using gaussian_scale_pos [OF assms(1,2)] by simp
  then have "(d1 * sqrt (- 2 * ln v))\<^sup>2 \<le> (d2 * sqrt (- 2 * ln v))\<^sup>2"
    using assms(3,4) by (intro sq_mono_scaled)
  then show ?thesis by (simp add: decay_def)
qed

subsection \<open>hyperbolic\<close>

lemma hyperbolic_zero: "decay ''hyperbolic'' v 0 = 1"
  by (simp add: decay_def)

lemma hyperbolic_range:
  assumes "0 < v" "v < 1" "d \<noteq> 0"
  shows "0 \<le> decay ''hyperbolic'' v d" "decay ''hyperbolic'' v d < 1"
proof -
  have "d * arcosh (1 / v) \<noteq> 0"
    using assms(3) hyperbolic_scale_pos [OF assms(1,2)] by simp
  then have "cosh (d * arcosh (1 / v)) \<noteq> 1" by simp
  then have "1 < cosh (d * arcosh (1 / v))"
    using cosh_real_ge_1 [of "d * arcosh (1 / v)"] by linarith
  then show "decay ''hyperbolic'' v d < 1" by (simp add: decay_def)
  show "0 \<le> decay ''hyperbolic'' v d" by (simp add: decay_def)
qed

lemma hyperbolic_at_1:
  assumes "0 < v" "v < 1"
  shows "decay ''hyperbolic'' v 1 = v"
proof -
  have "1 \<le> 1 / v" using assms by simp
  then have "cosh (arcosh (1 / v)) = 1 / v" by (rule cosh_arcosh_real)
  then show ?thesis using assms by (simp add: decay_def)
qed

lemma hyperbolic_mono:
  assumes "0 < v" "v < 1" "0 \<le> d1" "d1 \<le> d2"
  shows "decay ''hyperbolic'' v d2 \<le> decay ''hyperbolic'' v d1"
proof -
  have s: "0 \<le> arcosh (1 / v)" using hyperbolic_scale_pos [OF assms(1,2)] by simp
  have "d1 * arcosh (1 / v) \<le> d2 * arcosh (1 / v)"
    using assms(4) s by (rule mult_right_mono)
  moreover have "0 \<le> d1 * arcosh (1 / v)" "0 \<le> d2 * arcosh (1 / v)"
    using assms(3,4) s by simp_all
  ultimately have "cosh (d1 * arcosh (1 / v)) \<le> cosh (d2 * arcosh (1 / v))"
    by (simp add: cosh_real_nonneg_le_iff)
  then show ?thesis by (simp add: decay_def frac_le)
qed

subsection \<open>long tail\<close>

lemma long_tail_zero: "decay ''long_tail'' v 0 = 1"
  by (simp add: decay_def)

lemma long_tail_range:
  assumes "0 < v" "v < 1" "d \<noteq> 0"
  shows "0 \<le> decay ''long_tail'' v d" "decay ''long_tail'' v d < 1"
proof -
  have "0 < (d * sqrt (1 / v - 1))\<^sup>2"
    using assms by (intro sq_pos_scaled long_tail_scale_pos)
  from recip_succ_bounds [OF this]
  show "decay ''long_tail'' v d < 1" "0 \<le> decay ''long_tail'' v d"
    unfolding decay_def by simp_all
qed

lemma long_tail_at_1:
  assumes "0 < v" "v < 1"
  shows "decay ''long_tail'' v 1 = v"
proof -
  have "0 \<le> 1 / v - 1" using assms by simp
  then have "(sqrt (1 / v - 1))\<^sup>2 = 1 / v - 1" by (rule real_sqrt_pow2)
  then show ?thesis using assms by (simp add: decay_def)
qed

lemma long_tail_mono:
  assumes "0 < v" "v < 1" "0 \<le> d1" "d1 \<le> d2"
  shows "decay ''long_tail'' v d2 \<le> decay ''long_tail'' v d1"
proof -
  have "0 \<le> sqrt (1 / v - 1)" using long_tail_scale_pos [OF assms(1,2)] by simp
  then have "(d1 * sqrt (1 / v - 1))\<^sup>2 \<le> (d2 * sqrt (1 / v - 1))\<^sup>2"
    using assms(3,4) by (intro sq_mono_scaled)
  moreover have "0 < (d1 * sqrt (1 / v - 1))\<^sup>2 + 1"
    by (simp add: add_nonneg_pos)
  ultimately show ?thesis by (simp add: decay_def frac_le)
qed

subsection \<open>reciprocal\<close>

lemma reciprocal_zero: "decay ''reciprocal'' v 0 = 1"
  by (simp add: decay_def)

lemma reciprocal_range:
  assumes "0 < v" "v < 1" "d \<noteq> 0"
  shows "0 \<le> decay ''reciprocal'' v d" "decay ''reciprocal'' v d < 1"
proof -
  have "0 < \<bar>d\<bar> * (1 / v - 1)"
    using assms(3) reciprocal_scale_pos [OF assms(1,2)] by simp
  from recip_succ_bounds [OF this]
  show "0 \<le> decay ''reciprocal'' v d" "decay ''reciprocal'' v d < 1"
    unfolding decay_def by simp_all
qed

lemma reciprocal_at_1:
  assumes "0 < v" "v < 1"
  shows "decay ''reciprocal'' v 1 = v"
  using assms by (simp add: decay_def)

lemma reciprocal_mono:
  assumes "0 < v" "v < 1" "0 \<le> d1" "d1 \<le> d2"
  shows "decay ''reciprocal'' v d2 \<le> decay ''reciprocal'' v d1"
proof -
  have s: "0 \<le> 1 / v - 1" using reciprocal_scale_pos [OF assms(1,2)] by simp
  have "\<bar>d1\<bar> \<le> \<bar>d2\<bar>" using assms(3,4) by simp
  then have "\<bar>d1\<bar> * (1 / v - 1) \<le> \<bar>d2\<bar> * (1 / v - 1)"
    using s by (rule mult_right_mono)
  moreover have "0 \<le> \<bar>d1\<bar> * (1 / v - 1)" using s by simp
  ultimately show ?thesis by (simp add: decay_def frac_le)
qed

lemma nz_scaled:
  fixes s :: real
  assumes "d \<noteq> 0" "0 < s"
  shows "d * s \<noteq> 0"
  using assms by simp

subsection \<open>cosine\<close>

lemma cosine_zero: "decay ''cosine'' v 0 = 1"
  by (simp add: decay_def)

lemma half_cos_bounds:
  fixes y :: real
  assumes "y \<noteq> 0" "\<bar>y\<bar> < 1"
  shows "0 \<le> (1 + cos (pi * y)) / 2" "(1 + cos (pi * y)) / 2 < 1"
proof -
  have "- 1 \<le> cos (pi * y)" by (rule cos_ge_minus_one)
  then have "0 \<le> 1 + cos (pi * y)" by linarith
  then show "0 \<le> (1 + cos (pi * y)) / 2" by simp
  have a: "0 < pi * \<bar>y\<bar>" using assms(1) by simp
  have "pi * \<bar>y\<bar> < pi * 1" using assms(2) by (intro mult_strict_left_mono) simp_all
  then have b: "pi * \<bar>y\<bar> \<le> pi" by simp
  have "cos (pi * \<bar>y\<bar>) < cos 0"
    using a b by (intro cos_monotone_0_pi) simp_all
  moreover have "cos (pi * \<bar>y\<bar>) = cos (pi * y)"
    by (cases "0 \<le> y") (simp_all add: abs_if)
  ultimately show "(1 + cos (pi * y)) / 2 < 1" by simp
qed

lemma cosine_range:
  assumes "0 \<le> v" "v < 1" "d \<noteq> 0"
  shows "0 \<le> decay ''cosine'' v d" "decay ''cosine'' v d < 1"
proof -
  let ?y = "d * (arccos (2 * v - 1) / pi)"
  have ne: "?y \<noteq> 0"
    using assms(3) cosine_scale_bounds(1) [OF assms(1,2)] by (intro nz_scaled)
  have d: "decay ''cosine'' v d = (if \<bar>?y\<bar> < 1 then (1 + cos (pi * ?y)) / 2 else 0)"
    by (simp add: decay_def)
  show "0 \<le> decay ''cosine'' v d"
    unfolding d using half_cos_bounds(1) [OF ne] by (cases "\<bar>?y\<bar> < 1") simp_all
  show "decay ''cosine'' v d < 1"
    unfolding d using half_cos_bounds(2) [OF ne] by (cases "\<bar>?y\<bar> < 1") simp_all
qed

lemma cosine_at_1:
  assumes "0 \<le> v" "v < 1"
  shows "decay ''cosine'' v 1 = v"
proof (cases "v = 0")
  case True
  then show ?thesis by (simp add: decay_def)
next
  case False
  then have v: "0 < v" using assms(1) by simp
  have "- 1 < 2 * v - 1" "2 * v - 1 < 1" using v assms(2) by simp_all
  then have b: "0 < arccos (2 * v - 1) \<and> arccos (2 * v - 1) < pi"
    by (rule arccos_lt_bounded)
  then have "\<bar>arccos (2 * v - 1) / pi\<bar> < 1" by simp
  moreover have "cos (arccos (2 * v - 1)) = 2 * v - 1"
    using v assms(2) by (intro cos_arccos) simp_all
  ultimately show ?thesis by (simp add: decay_def)
qed

lemma half_cos_mono:
  fixes y1 y2 :: real
  assumes "0 \<le> y1" "y1 \<le> y2"
  shows "(if \<bar>y2\<bar> < 1 then (1 + cos (pi * y2)) / 2 else 0)
           \<le> (if \<bar>y1\<bar> < 1 then (1 + cos (pi * y1)) / 2 else 0)"
proof -
  have nonneg: "0 \<le> (1 + cos (pi * y)) / 2" for y :: real
  proof -
    have "- 1 \<le> cos (pi * y)" by (rule cos_ge_minus_one)
    then have "0 \<le> 1 + cos (pi * y)" by linarith
    then show ?thesis by simp
  qed
  show ?thesis
  proof (cases "\<bar>y2\<bar> < 1")
    case False
    then show ?thesis using nonneg [of y1] by simp
  next
    case True
    then have lt2: "y2 < 1" by linarith
    have lt1: "\<bar>y1\<bar> < 1" using assms lt2 by linarith
    have "pi * y2 \<le> pi * 1" using lt2 by (intro mult_left_mono) simp_all
    then have "pi * y2 \<le> pi" by simp
    moreover have "0 \<le> pi * y1" using assms(1) by simp
    moreover have "pi * y1 \<le> pi * y2" using assms(2) by (intro mult_left_mono) simp_all
    ultimately have "cos (pi * y2) \<le> cos (pi * y1)"
      by (intro cos_monotone_0_pi_le)
    then show ?thesis using True lt1 by simp
  qed
qed

lemma cosine_mono:
  assumes "0 \<le> v" "v < 1" "0 \<le> d1" "d1 \<le> d2"
  shows "decay ''cosine'' v d2 \<le> decay ''cosine'' v d1"
proof -
  let ?s = "arccos (2 * v - 1) / pi"
  have s: "0 \<le> ?s" using cosine_scale_bounds(1) [OF assms(1,2)] by simp
  have y1: "0 \<le> d1 * ?s" using assms(3) s by (rule mult_nonneg_nonneg)
  have y12: "d1 * ?s \<le> d2 * ?s" using assms(4) s by (rule mult_right_mono)
  have d: "decay ''cosine'' v d = (if \<bar>d * ?s\<bar> < 1 then (1 + cos (pi * (d * ?s))) / 2 else 0)" for d
    by (simp add: decay_def)
  show ?thesis unfolding d by (rule half_cos_mono [OF y1 y12])
qed

subsection \<open>linear\<close>

lemma linear_zero: "decay ''linear'' v 0 = 1"
  by (simp add: decay_def)

lemma linear_range:
  assumes "0 \<le> v" "v < 1" "0 < d"
  shows "0 \<le> decay ''linear'' v d" "decay ''linear'' v d < 1"
proof -
  have "0 < d * (1 - v)" using assms by simp
  then show "0 \<le> decay ''linear'' v d" "decay ''linear'' v d < 1"
    unfolding decay_def by (simp_all add: abs_if)
qed

lemma linear_at_1:
  assumes "0 \<le> v" "v < 1"
  shows "decay ''linear'' v 1 = v"
  using assms by (simp add: decay_def abs_if)

lemma linear_mono:
  assumes "0 \<le> v" "v < 1" "0 \<le> d1" "d1 \<le> d2"
  shows "decay ''linear'' v d2 \<le> decay ''linear'' v d1"
proof -
  have s: "0 \<le> 1 - v" using assms(2) by simp
  have y1: "0 \<le> d1 * (1 - v)" using assms(3) s by simp
  have y12: "d1 * (1 - v) \<le> d2 * (1 - v)" using assms(4) s by (rule mult_right_mono)
  show ?thesis using y1 y12 unfolding decay_def by (simp add: abs_if)
qed

subsection \<open>quadratic\<close>

lemma quadratic_zero: "decay ''quadratic'' v 0 = 1"
  by (simp add: decay_def)

lemma quadratic_range:
  assumes "0 \<le> v" "v < 1" "d \<noteq> 0"
  shows "0 \<le> decay ''quadratic'' v d" "decay ''quadratic'' v d < 1"
proof -
  let ?y = "d * sqrt (1 - v)"
  have p: "0 < ?y\<^sup>2" using assms(3) quadratic_scale_pos [OF assms(2)] by (intro sq_pos_scaled)
  have d: "decay ''quadratic'' v d = (if \<bar>?y\<bar> < 1 then 1 - ?y\<^sup>2 else 0)"
    by (simp add: decay_def)
  have "\<bar>?y\<bar> < 1 \<Longrightarrow> ?y\<^sup>2 \<le> 1"
    using abs_square_le_1 [of ?y] by simp
  then show "0 \<le> decay ''quadratic'' v d" unfolding d by simp
  show "decay ''quadratic'' v d < 1" unfolding d using p by simp
qed

lemma quadratic_at_1:
  assumes "0 \<le> v" "v < 1"
  shows "decay ''quadratic'' v 1 = v"
proof -
  have "0 \<le> 1 - v" using assms by simp
  then have sq: "(sqrt (1 - v))\<^sup>2 = 1 - v" by (rule real_sqrt_pow2)
  show ?thesis using assms sq by (simp add: decay_def)
qed

lemma quadratic_mono:
  assumes "0 \<le> v" "v < 1" "0 \<le> d1" "d1 \<le> d2"
  shows "decay ''quadratic'' v d2 \<le> decay ''quadratic'' v d1"
proof -
  let ?s = "sqrt (1 - v)"
  have s: "0 \<le> ?s" using assms(2) by simp
  have y1: "0 \<le> d1 * ?s" using assms(3) s by simp
  have y12: "d1 * ?s \<le> d2 * ?s" using assms(4) s by (rule mult_right_mono)
  have sq: "(d1 * ?s)\<^sup>2 \<le> (d2 * ?s)\<^sup>2" using assms(3,4) s by (rule sq_mono_scaled)
  have d: "decay ''quadratic'' v d = (if \<bar>d * ?s\<bar> < 1 then 1 - (d * ?s)\<^sup>2 else 0)" for d
    by (simp add: decay_def)
  have le1: "\<bar>d1 * ?s\<bar> < 1 \<Longrightarrow> (d1 * ?s)\<^sup>2 \<le> 1"
    using abs_square_le_1 [of "d1 * ?s"] by simp
  show ?thesis
  proof (cases "\<bar>d2 * ?s\<bar> < 1")
    case False
    then show ?thesis unfolding d using le1 by simp
  next
    case True
    then have "\<bar>d1 * ?s\<bar> < 1" using y1 y12 by simp
    then show ?thesis unfolding d using True sq by simp
  qed
qed

subsection \<open>tanh squared\<close>

lemma tanh_squared_zero: "decay ''tanh_squared'' v 0 = 1"
  by (simp add: decay_def)

lemma tanh_sq_bounds:
  fixes y :: real
  assumes "y \<noteq> 0"
  shows "0 < (tanh y)\<^sup>2" "(tanh y)\<^sup>2 < 1"
proof -
  show "0 < (tanh y)\<^sup>2" using assms by simp
  have "\<bar>tanh y\<bar> < 1" using tanh_real_lt_1 [of y] tanh_real_gt_neg1 [of y] by simp
  then show "(tanh y)\<^sup>2 < 1" by (simp add: abs_square_less_1)
qed

lemma tanh_squared_range:
  assumes "0 < v" "v < 1" "d \<noteq> 0"
  shows "0 \<le> decay ''tanh_squared'' v d" "decay ''tanh_squared'' v d < 1"
proof -
  have ne: "d * artanh (sqrt (1 - v)) \<noteq> 0"
    using assms(3) tanh_squared_scale_pos [OF assms(1,2)] by simp
  show "0 \<le> decay ''tanh_squared'' v d" "decay ''tanh_squared'' v d < 1"
    unfolding decay_def using tanh_sq_bounds [OF ne] by simp_all
qed

lemma tanh_squared_at_1:
  assumes "0 < v" "v < 1"
  shows "decay ''tanh_squared'' v 1 = v"
proof -
  have "- 1 < sqrt (1 - v)" "sqrt (1 - v) < 1"
    using assms by (simp_all add: real_sqrt_lt_1_iff less_le_trans [of "- 1" 0])
  then have "tanh (artanh (sqrt (1 - v))) = sqrt (1 - v)" by (rule tanh_artanh_real)
  moreover have "(sqrt (1 - v))\<^sup>2 = 1 - v" using assms by (intro real_sqrt_pow2) simp
  ultimately show ?thesis by (simp add: decay_def)
qed

lemma tanh_squared_mono:
  assumes "0 < v" "v < 1" "0 \<le> d1" "d1 \<le> d2"
  shows "decay ''tanh_squared'' v d2 \<le> decay ''tanh_squared'' v d1"
proof -
  let ?s = "artanh (sqrt (1 - v))"
  have s: "0 \<le> ?s" using tanh_squared_scale_pos [OF assms(1,2)] by simp
  have y1: "0 \<le> d1 * ?s" using assms(3) s by simp
  have y12: "d1 * ?s \<le> d2 * ?s" using assms(4) s by (rule mult_right_mono)
  have "0 \<le> tanh (d1 * ?s)" using y1 by simp
  moreover have "tanh (d1 * ?s) \<le> tanh (d2 * ?s)" using y12 by simp
  ultimately have "(tanh (d1 * ?s))\<^sup>2 \<le> (tanh (d2 * ?s))\<^sup>2" by (simp add: power_mono)
  then show ?thesis by (simp add: decay_def)
qed

section \<open>What the scorer computes\<close>

lemma decay_zero:
  assumes "sigmoid \<in> set recognized_kinds"
  shows "decay sigmoid v 0 = 1"
  using assms gaussian_zero hyperbolic_zero long_tail_zero reciprocal_zero cosine_zero
    linear_zero quadratic_zero tanh_squared_zero
  by (auto simp add: recognized_kinds_def)

lemma kind_cases:
  assumes "sigmoid \<in> set recognized_kinds"
  obtains "sigmoid = ''gaussian''" | "sigmoid = ''hyperbolic''" | "sigmoid = ''long_tail''"
    | "sigmoid = ''reciprocal''" | "sigmoid = ''cosine''" | "sigmoid = ''linear''"
    | "sigmoid = ''quadratic''" | "sigmoid = ''tanh_squared''"
proof -
  have "sigmoid = ''gaussian'' \<or> sigmoid = ''hyperbolic'' \<or> sigmoid = ''long_tail''
    \<or> sigmoid = ''reciprocal'' \<or> sigmoid = ''cosine'' \<or> sigmoid = ''linear''
    \<or> sigmoid = ''quadratic'' \<or> sigmoid = ''tanh_squared''"
    using assms by (simp add: recognized_kinds_def)
  then show thesis
    by (elim disjE) (rule that, assumption)+
qed

lemma decay_range:
  assumes "sigmoid \<in> set recognized_kinds" "valid_value_at_1 sigmoid v"
    and "d \<noteq> 0" "sigmoid = ''linear'' \<longrightarrow> 0 < d"
  shows "0 \<le> decay sigmoid v d \<and> decay sigmoid v d < 1"
  using assms(1)
proof (cases rule: kind_cases)
  case 1
  then have "0 < v" "v < 1" using assms(2) by (simp_all add: valid_value_at_1_def)
  then show ?thesis unfolding 1 using gaussian_range [OF _ _ assms(3)] by simp
next
  case 2
  then have "0 < v" "v < 1" using assms(2) by (simp_all add: valid_value_at_1_def)
  then show ?thesis unfolding 2 using hyperbolic_range [OF _ _ assms(3)] by simp
next
  case 3
  then have "0 < v" "v < 1" using assms(2) by (simp_all add: valid_value_at_1_def)
  then show ?thesis unfolding 3 using long_tail_range [OF _ _ assms(3)] by simp
next
  case 4
  then have "0 < v" "v < 1" using assms(2) by (simp_all add: valid_value_at_1_def)
  then show ?thesis unfolding 4 using reciprocal_range [OF _ _ assms(3)] by simp
next
  case 5
  then have "0 \<le> v" "v < 1" using assms(2) by (simp_all add: valid_value_at_1_def)
  then show ?thesis unfolding 5 using cosine_range [OF _ _ assms(3)] by simp
next
  case 6
  then have "0 \<le> v" "v < 1" "0 < d" using assms(2,4) by (simp_all add: valid_value_at_1_def)
  then show ?thesis unfolding 6 using linear_range by simp
next
  case 7
  then have "0 \<le> v" "v < 1" using assms(2) by (simp_all add: valid_value_at_1_def)
  then show ?thesis unfolding 7 using quadratic_range [OF _ _ assms(3)] by simp
next
  case 8
  then have "0 < v" "v < 1" using assms(2) by (simp_all add: valid_value_at_1_def)
  then show ?thesis unfolding 8 using tanh_squared_range [OF _ _ assms(3)] by simp
qed

lemma decay_nonneg:
  assumes "sigmoid \<in> set recognized_kinds" "valid_value_at_1 sigmoid v" "0 < d"
  shows "0 \<le> decay sigmoid v d"
  using decay_range [OF assms(1,2), of d] assms(3) by simp

lemma decay_less_1:
  assumes "sigmoid \<in> set recognized_kinds" "valid_value_at_1 sigmoid v" "0 < d"
  shows "decay sigmoid v d < 1"
  using decay_range [OF assms(1,2), of d] assms(3) by simp

lemma decay_at_1:
  assumes "sigmoid \<in> set recognized_kinds" "valid_value_at_1 sigmoid v"
  shows "decay sigmoid v 1 = v"
  using assms gaussian_at_1 hyperbolic_at_1 long_tail_at_1 reciprocal_at_1
    cosine_at_1 linear_at_1 quadratic_at_1 tanh_squared_at_1
  by (auto simp add: recognized_kinds_def valid_value_at_1_def)

lemma decay_mono:
  assumes "sigmoid \<in> set recognized_kinds" "valid_value_at_1 sigmoid v" "0 \<le> d1" "d1 \<le> d2"
  shows "decay sigmoid v d2 \<le> decay sigmoid v d1"
  using assms gaussian_mono hyperbolic_mono long_tail_mono reciprocal_mono
    cosine_mono linear_mono quadratic_mono tanh_squared_mono
  by (auto simp add: recognized_kinds_def valid_value_at_1_def)

lemma excess_pos:
  fixes xi :: real
  assumes "\<not> (lower \<le> xi \<and> xi \<le> upper)" "0 < margin"
  shows "0 < (if xi < lower then lower - xi else xi - upper) / margin"
  using assms by (auto simp add: field_simps)

lemma score_out:
  assumes "\<not> (lower \<le> xi \<and> xi \<le> upper)" "margin \<noteq> 0"
  shows "score lower upper margin sigmoid v xi
           = decay sigmoid v ((if xi < lower then lower - xi else xi - upper) / margin)"
  using assms by (auto simp add: score_def)

lemma score_margin0:
  "score lower upper 0 sigmoid v = (\<lambda>xi. if lower \<le> xi \<and> xi \<le> upper then 1 else 0)"
  by (rule ext) (simp add: score_def)

lemma score_range:
  assumes "0 < margin \<longrightarrow> sigmoid \<in> set recognized_kinds \<and> valid_value_at_1 sigmoid v" "0 \<le> margin"
  shows "0 \<le> score lower upper margin sigmoid v xi \<and> score lower upper margin sigmoid v xi \<le> 1"
proof (cases "lower \<le> xi \<and> xi \<le> upper")
  case True
  then show ?thesis by (simp add: score_def)
next
  case out: False
  show ?thesis
  proof (cases "margin = 0")
    case True
    then show ?thesis using out by (auto simp add: score_def)
  next
    case False
    then have m: "0 < margin" using assms(2) by simp
    then have k: "sigmoid \<in> set recognized_kinds" "valid_value_at_1 sigmoid v" using assms(1) by simp_all
    let ?d = "(if xi < lower then lower - xi else xi - upper) / margin"
    have d: "0 < ?d" using out m by (rule excess_pos)
    have "score lower upper margin sigmoid v xi = decay sigmoid v ?d"
      using out False by (rule score_out)
    then show ?thesis using decay_nonneg [OF k d] decay_less_1 [OF k d] by simp
  qed
qed

lemma score_one_iff:
  assumes "0 < margin \<longrightarrow> sigmoid \<in> set recognized_kinds \<and> valid_value_at_1 sigmoid v" "0 \<le> margin"
  shows "score lower upper margin sigmoid v xi = 1 \<longleftrightarrow> lower \<le> xi \<and> xi \<le> upper"
proof (cases "lower \<le> xi \<and> xi \<le> upper")
  case True
  then show ?thesis by (simp add: score_def)
next
  case out: False
  show ?thesis
  proof (cases "margin = 0")
    case True
    then show ?thesis using out by (auto simp add: score_def)
  next
    case False
    then have m: "0 < margin" using assms(2) by simp
    then have k: "sigmoid \<in> set recognized_kinds" "valid_value_at_1 sigmoid v" using assms(1) by simp_all
    let ?d = "(if xi < lower then lower - xi else xi - upper) / margin"
    have d: "0 < ?d" using out m by (rule excess_pos)
    have "score lower upper margin sigmoid v xi = decay sigmoid v ?d"
      using out False by (rule score_out)
    then show ?thesis using decay_less_1 [OF k d] out by simp
  qed
qed

lemma score_at_margin:
  assumes "sigmoid \<in> set recognized_kinds" "valid_value_at_1 sigmoid v" "0 < margin" "lower \<le> upper"
  shows "score lower upper margin sigmoid v (upper + margin) = v"
    and "score lower upper margin sigmoid v (lower - margin) = v"
proof -
  have "score lower upper margin sigmoid v (upper + margin) = decay sigmoid v 1"
    using assms(3,4) by (simp add: score_def)
  then show "score lower upper margin sigmoid v (upper + margin) = v"
    using decay_at_1 [OF assms(1,2)] by simp
  have "score lower upper margin sigmoid v (lower - margin) = decay sigmoid v 1"
    using assms(3,4) by (simp add: score_def)
  then show "score lower upper margin sigmoid v (lower - margin) = v"
    using decay_at_1 [OF assms(1,2)] by simp
qed

lemma score_mono:
  assumes "0 < margin \<longrightarrow> sigmoid \<in> set recognized_kinds \<and> valid_value_at_1 sigmoid v" "0 \<le> margin"
    and "lower \<le> upper"
    and "(upper < x1 \<and> x1 \<le> x2) \<or> (x2 \<le> x1 \<and> x1 < lower)"
  shows "score lower upper margin sigmoid v x2 \<le> score lower upper margin sigmoid v x1"
proof (cases "margin = 0")
  case True
  then show ?thesis using assms(3,4) by (auto simp add: score_def)
next
  case False
  then have m: "0 < margin" using assms(2) by simp
  then have k: "sigmoid \<in> set recognized_kinds" "valid_value_at_1 sigmoid v" using assms(1) by simp_all
  let ?d = "\<lambda>xi. (if xi < lower then lower - xi else xi - upper) / margin"
  have out: "\<not> (lower \<le> x1 \<and> x1 \<le> upper)" "\<not> (lower \<le> x2 \<and> x2 \<le> upper)"
    using assms(3,4) by auto
  have s: "score lower upper margin sigmoid v x1 = decay sigmoid v (?d x1)"
     "score lower upper margin sigmoid v x2 = decay sigmoid v (?d x2)"
    using score_out [OF out(1) False] score_out [OF out(2) False] by simp_all
  have d1: "0 \<le> ?d x1" using excess_pos [OF out(1) m] by simp
  have "(if x1 < lower then lower - x1 else x1 - upper) \<le> (if x2 < lower then lower - x2 else x2 - upper)"
    using assms(3,4) by auto
  then have d12: "?d x1 \<le> ?d x2" using m by (simp add: divide_right_mono)
  show ?thesis unfolding s by (rule decay_mono [OF k d1 d12])
qed

lemma tolerance_array0:
  assumes "lower \<le> upper"
  shows "tolerance (NdArray s xs) (lower, upper) 0 sigmoid v
           = Inr (NdArray s (map (score lower upper 0 sigmoid v) xs))"
  using assms np_where_ass [of s "\<lambda>xi. lower \<le> xi \<and> xi \<le> upper" xs 1 0]
  by (simp add: tolerance_def score_margin0)

lemma tolerance_scalar0:
  assumes "lower \<le> upper"
  shows "tolerance (Scalar xi) (lower, upper) 0 sigmoid v
           = Inr (Scalar (score lower upper 0 sigmoid v xi))"
  using assms by (simp add: tolerance_def score_margin0 np_where_sss)

lemma tolerance_scalar:
  assumes "lower \<le> upper" "0 < margin" "sigmoid \<in> set recognized_kinds" "valid_value_at_1 sigmoid v"
  shows "tolerance (Scalar xi) (lower, upper) margin sigmoid v
           = Inr (Scalar (score lower upper margin sigmoid v xi))"
proof -
  have "sigmoids (NdArray [] (map (\<lambda>x. (if x < lower then lower - x else x - upper) / margin) [xi])) v sigmoid
          = Inr (NdArray [] (map (\<lambda>x. decay sigmoid v ((if x < lower then lower - x else x - upper) / margin)) [xi]))"
    by (rule sigmoids_array [OF assms(3,4)])
  then show ?thesis using assms(1,2)
    by (simp add: tolerance_def np_where_sss np_where_ssa score_def cong: if_cong)
qed

lemma tolerance_value:
  assumes "lower \<le> upper" "0 \<le> margin"
    and "0 < margin \<longrightarrow> sigmoid \<in> set recognized_kinds \<and> valid_value_at_1 sigmoid v"
  shows "tolerance x (lower, upper) margin sigmoid v
           = Inr (result_of x (map (score lower upper margin sigmoid v) (elems x)))"
proof (cases "margin = 0")
  case True
  then show ?thesis using assms(1)
    by (cases x) (simp_all add: tolerance_array0 tolerance_scalar0)
next
  case False
  then have m: "0 < margin" using assms(2) by simp
  then have k: "sigmoid \<in> set recognized_kinds" "valid_value_at_1 sigmoid v" using assms(3) by simp_all
  show ?thesis
    by (cases x) (simp_all add: tolerance_array [OF assms(1) m k] tolerance_scalar [OF assms(1) m k])
qed

lemma elems_result_of: "length ys = length (elems x) \<Longrightarrow> elems (result_of x ys) = ys"
  by (cases x; cases ys) simp_all

lemma sigmoids_scalar:
  assumes "sigmoid \<in> set recognized_kinds" "valid_value_at_1 sigmoid v"
  shows "\<exists>r. sigmoids (Scalar xi) v sigmoid = Inr r \<and> elems r = [decay sigmoid v xi]"
  using assms
  by (auto simp add: sigmoids_def recognized_kinds_def valid_value_at_1_def decay_def np_where_sss Let_def)

lemma sigmoids_elems:
  assumes "sigmoid \<in> set recognized_kinds" "valid_value_at_1 sigmoid v"
  shows "\<exists>r. sigmoids x v sigmoid = Inr r \<and> elems r = map (decay sigmoid v) (elems x)"
proof (cases x)
  case (Scalar xi)
  then show ?thesis using sigmoids_scalar [OF assms, of xi] by simp
next
  case (NdArray s xs)
  then show ?thesis using sigmoids_array [OF assms, of s "\<lambda>x. x" xs] by simp
qed

lemma torch_where_ttt:
  "torch_where (Tensor s (map f xs)) (TorchTensor (Tensor s1 (map g xs))) (TorchTensor (Tensor s2 (map h xs)))
     = Inr (Tensor s (map (\<lambda>x. if f x then g x else h x) xs))"
  by (induction xs) (simp_all add: torch_where_def)

lemma torch_where_ttn:
  "torch_where (Tensor s (map f xs)) (TorchTensor (Tensor s1 (map g xs))) (Number b)
     = Inr (Tensor s (map (\<lambda>x. if f x then g x else b) xs))"
  by (induction xs) (simp_all add: torch_where_def)

lemma torch_where_tnt:
  "torch_where (Tensor s (map f xs)) (Number a) (TorchTensor (Tensor s2 (map h xs)))
     = Inr (Tensor s (map (\<lambda>x. if f x then a else h x) xs))"
  by (induction xs) (simp_all add: torch_where_def)

lemma torch_where_tnn:
  "torch_where (Tensor s (map f xs)) (Number a) (Number b)
     = Inr (Tensor s (map (\<lambda>x. if f x then a else b) xs))"
  by (induction xs) (simp_all add: torch_where_def)

lemma torch_where_numpy:
  "torch_where c (Number a) (NumpyArray n) = Inl TypeError"
  by (simp add: torch_where_def)

lemmas torch_where_simps = torch_where_ttt torch_where_ttn torch_where_tnt torch_where_tnn

lemma sigmoids_tensor_value:
  assumes "sigmoid \<in> set recognized_kinds" "sigmoid \<noteq> ''cosine''" "valid_value_at_1 sigmoid v"
  shows "sigmoids_tensor (Tensor s (map f xs)) v sigmoid
           = Inr (TorchTensor (Tensor s (map (\<lambda>x. decay sigmoid v (f x)) xs)))"
  using assms
  by (auto simp add: sigmoids_tensor_def recognized_kinds_def valid_value_at_1_def decay_def
        torch_where_simps o_def Let_def)

lemma sigmoids_tensor_cosine:
  assumes "0 \<le> v" "v < 1"
  shows "\<exists>n. sigmoids_tensor x v ''cosine'' = Inr (NumpyArray n)"
  using assms by (simp add: sigmoids_tensor_def Let_def)

lemma tolerance_tensor_value:
  assumes "lower \<le> upper" "0 \<le> margin"
    and "0 < margin \<longrightarrow> sigmoid \<in> set recognized_kinds \<and> sigmoid \<noteq> ''cosine'' \<and> valid_value_at_1 sigmoid v"
  shows "tolerance_tensor (Tensor s xs) (lower, upper) margin sigmoid v
           = Inr (Tensor s (map (score lower upper margin sigmoid v) xs))"
proof (cases "margin = 0")
  case True
  then show ?thesis using assms(1)
    by (simp add: tolerance_tensor_def torch_where_simps score_margin0)
next
  case False
  then have m: "0 < margin" using assms(2) by simp
  then have k: "sigmoid \<in> set recognized_kinds" "sigmoid \<noteq> ''cosine''" "valid_value_at_1 sigmoid v"
    using assms(3) by simp_all
  have "sigmoids_tensor (Tensor s (map (\<lambda>x. (if x < lower then lower - x else x - upper) / margin) xs)) v sigmoid
          = Inr (TorchTensor (Tensor s (map (\<lambda>x. decay sigmoid v ((if x < lower then lower - x else x - upper) / margin)) xs)))"
    by (rule sigmoids_tensor_value [OF k])
  then show ?thesis using assms(1) m
    by (simp add: tolerance_tensor_def torch_where_simps o_def score_def cong: if_cong)
qed

lemma tolerance_tensor_cosine:
  assumes "lower \<le> upper" "0 < margin" "0 \<le> v" "v < 1"
  shows "tolerance_tensor (Tensor s xs) (lower, upper) margin ''cosine'' v = Inl TypeError"
proof -
  obtain n where "sigmoids_tensor (Tensor s (map (\<lambda>x. (if x < lower then lower - x else x - upper) / margin) xs)) v ''cosine''
      = Inr (NumpyArray n)"
    using sigmoids_tensor_cosine [OF assms(3,4)] by blast
  then show ?thesis using assms(1,2)
    by (simp add: tolerance_tensor_def torch_where_simps torch_where_numpy o_def)
qed

section \<open>Errors and return conventions\<close>

lemma tolerance_invalid_bounds:
  "upper < lower \<Longrightarrow> tolerance x (lower, upper) margin sigmoid v = Inl InvalidBounds"
  by (simp add: tolerance_def)

lemma tolerance_invalid_margin:
  "lower \<le> upper \<Longrightarrow> margin < 0 \<Longrightarrow> tolerance x (lower, upper) margin sigmoid v = Inl InvalidMargin"
  by (simp add: tolerance_def)

lemma sigmoids_invalid_parameter:
  assumes "\<not> valid_value_at_1 sigmoid v"
  shows "sigmoids x v sigmoid = Inl InvalidParameter"
proof -
  have c: "(if sigmoid \<in> set [''cosine'', ''linear'', ''quadratic'']
            then \<not> (0 \<le> v \<and> v < 1) else \<not> (0 < v \<and> v < 1))"
    using assms unfolding valid_value_at_1_def by (simp split: if_splits)
  show ?thesis unfolding sigmoids_def by (rule if_P [OF c])
qed

lemma sigmoids_unknown_shape:
  "sigmoid \<notin> set recognized_kinds \<Longrightarrow> 0 < v \<Longrightarrow> v < 1 \<Longrightarrow> sigmoids x v sigmoid = Inl UnknownShape"
  by (simp add: sigmoids_def recognized_kinds_def)

lemma tolerance_sigmoids_error:
  assumes "lower \<le> upper" "0 < margin" "\<And>d. sigmoids d v sigmoid = Inl e"
  shows "tolerance x (lower, upper) margin sigmoid v = Inl e"
  using assms by (simp add: tolerance_def)

lemma tolerance_zero_margin_no_error:
  assumes "lower \<le> upper"
  shows "\<exists>r. tolerance x (lower, upper) 0 sigmoid v = Inr r"
  using tolerance_value [OF assms, of 0 sigmoid v x] by simp

lemma tolerance_tensor_zero_margin_no_error:
  assumes "lower \<le> upper"
  shows "\<exists>r. tolerance_tensor t (lower, upper) 0 sigmoid v = Inr r"
proof (cases t)
  case (Tensor s xs)
  then show ?thesis using tolerance_tensor_value [OF assms, of 0 sigmoid v s xs] by simp
qed

lemma tolerance_return_shape:
  assumes "lower \<le> upper" "0 \<le> margin"
    and "0 < margin \<longrightarrow> sigmoid \<in> set recognized_kinds \<and> valid_value_at_1 sigmoid v"
  shows "\<exists>r. tolerance x (lower, upper) margin sigmoid v = Inr r
           \<and> np_isscalar r = np_isscalar x \<and> shape_of r = shape_of x
           \<and> length (elems r) = length (elems x)"
  unfolding tolerance_value [OF assms] by (cases x) simp_all

section \<open>Range, margin and monotonicity in exact arithmetic\<close>

text \<open>
  The lemmas of this section describe the formulas of the module read over the reals.
  They depend on the arithmetic itself, not only on comparisons and control flow, and
  do not carry over to the 64-bit floating-point numbers the module computes with:
  there a sum such as \<open>\<bar>d\<bar> * scale + 1\<close> rounds to exactly 1 for a small positive
  \<open>d\<close>, \<open>1 - (1 - 0.1)\<close> is not \<open>0.1\<close>, and an overflowing scale multiplied
  by an underflowing distance is not a number. They are kept as the idealised
  behaviour the formulas are designed for.

  In exact arithmetic an element of the result is 1 exactly when the element of \<open>x\<close>
  is in bounds; every element lies in \<open>[0, 1]\<close>; the score at distance \<open>margin\<close>
  from a bound is \<open>value_at_margin\<close>; the score does not increase with the excess
  distance; and the evaluator is 1 at distance 0 and in \<open>[0, 1)\<close> elsewhere (for
  \<open>linear\<close>: at positive distances).
\<close>

lemma tolerance_one_iff_in_bounds:
  assumes "lower \<le> upper" "0 \<le> margin"
    and "sigmoid \<in> set recognized_kinds" "valid_value_at_1 sigmoid v"
  shows "\<exists>r. tolerance x (lower, upper) margin sigmoid v = Inr r
           \<and> np_isscalar r = np_isscalar x
           \<and> length (elems r) = length (elems x)
           \<and> (\<forall>i < length (elems x).
                 elems r ! i = 1 \<longleftrightarrow> lower \<le> elems x ! i \<and> elems x ! i \<le> upper)"
proof -
  let ?ys = "map (score lower upper margin sigmoid v) (elems x)"
  have k: "0 < margin \<longrightarrow> sigmoid \<in> set recognized_kinds \<and> valid_value_at_1 sigmoid v"
    using assms(3,4) by simp
  have t: "tolerance x (lower, upper) margin sigmoid v = Inr (result_of x ?ys)"
    by (rule tolerance_value [OF assms(1,2) k])
  have e: "elems (result_of x ?ys) = ?ys" by (rule elems_result_of) simp
  have s: "np_isscalar (result_of x ?ys) = np_isscalar x" by (cases x) simp_all
  show ?thesis unfolding t using e s score_one_iff [OF k assms(2)] by simp
qed

lemma tolerance_in_unit_interval:
  assumes "lower \<le> upper" "0 \<le> margin"
    and "sigmoid \<in> set recognized_kinds" "valid_value_at_1 sigmoid v"
  shows "\<exists>r. tolerance x (lower, upper) margin sigmoid v = Inr r
           \<and> length (elems r) = length (elems x)
           \<and> (\<forall>y \<in> set (elems r). 0 \<le> y \<and> y \<le> 1)"
proof -
  let ?ys = "map (score lower upper margin sigmoid v) (elems x)"
  have k: "0 < margin \<longrightarrow> sigmoid \<in> set recognized_kinds \<and> valid_value_at_1 sigmoid v"
    using assms(3,4) by simp
  have t: "tolerance x (lower, upper) margin sigmoid v = Inr (result_of x ?ys)"
    by (rule tolerance_value [OF assms(1,2) k])
  have e: "elems (result_of x ?ys) = ?ys" by (rule elems_result_of) simp
  show ?thesis unfolding t using e score_range [OF k assms(2)] by auto
qed

lemma tolerance_at_margin:
  assumes "lower \<le> upper" "0 < margin"
    and "sigmoid \<in> set recognized_kinds" "valid_value_at_1 sigmoid v"
  shows "tolerance (Scalar (upper + margin)) (lower, upper) margin sigmoid v = Inr (Scalar v)
         \<and> tolerance (Scalar (lower - margin)) (lower, upper) margin sigmoid v = Inr (Scalar v)
         \<and> (\<exists>r. tolerance x (lower, upper) margin sigmoid v = Inr r
                \<and> length (elems r) = length (elems x)
                \<and> (\<forall>i < length (elems x).
                      elems x ! i = upper + margin \<or> elems x ! i = lower - margin
                        \<longrightarrow> elems r ! i = v))"
proof -
  let ?ys = "map (score lower upper margin sigmoid v) (elems x)"
  have k: "0 < margin \<longrightarrow> sigmoid \<in> set recognized_kinds \<and> valid_value_at_1 sigmoid v"
    using assms(3,4) by simp
  have m: "0 \<le> margin" using assms(2) by simp
  note at = score_at_margin [OF assms(3,4,2,1)]
  have t: "tolerance x (lower, upper) margin sigmoid v = Inr (result_of x ?ys)"
    by (rule tolerance_value [OF assms(1) m k])
  have e: "elems (result_of x ?ys) = ?ys" by (rule elems_result_of) simp
  have "\<exists>r. tolerance x (lower, upper) margin sigmoid v = Inr r
           \<and> length (elems r) = length (elems x)
           \<and> (\<forall>i < length (elems x).
                 elems x ! i = upper + margin \<or> elems x ! i = lower - margin
                   \<longrightarrow> elems r ! i = v)"
    unfolding t using e at by auto
  then show ?thesis
    using at by (simp add: tolerance_scalar [OF assms(1,2,3,4)])
qed

lemma tolerance_non_increasing:
  assumes "lower \<le> upper" "0 \<le> margin"
    and "sigmoid \<in> set recognized_kinds" "valid_value_at_1 sigmoid v"
    and "(upper < x1 \<and> x1 \<le> x2) \<or> (x2 \<le> x1 \<and> x1 < lower)"
  shows "\<exists>r1 r2. tolerance (Scalar x1) (lower, upper) margin sigmoid v = Inr (Scalar r1)
           \<and> tolerance (Scalar x2) (lower, upper) margin sigmoid v = Inr (Scalar r2)
           \<and> r2 \<le> r1"
proof -
  have k: "0 < margin \<longrightarrow> sigmoid \<in> set recognized_kinds \<and> valid_value_at_1 sigmoid v"
    using assms(3,4) by simp
  have t: "tolerance (Scalar xi) (lower, upper) margin sigmoid v
             = Inr (Scalar (score lower upper margin sigmoid v xi))" for xi
    using tolerance_value [OF assms(1,2) k, of "Scalar xi"] by simp
  show ?thesis unfolding t using score_mono [OF k assms(2,1,5)] by simp
qed

lemma sigmoids_at_zero_example:
  "''gaussian'' \<in> set recognized_kinds \<and> valid_value_at_1 ''gaussian'' (1 / 2)
   \<and> sigmoids (Scalar 0) (1 / 2) ''gaussian'' = Inr (Scalar 1)
   \<and> \<not> ((1::real) < 1)"
  by (simp add: recognized_kinds_def valid_value_at_1_def sigmoids_def)

lemma sigmoids_range:
  assumes "sigmoid \<in> set recognized_kinds" "valid_value_at_1 sigmoid v"
  shows "\<exists>r. sigmoids x v sigmoid = Inr r
           \<and> length (elems r) = length (elems x)
           \<and> (\<forall>i < length (elems x).
                 (elems x ! i = 0 \<longrightarrow> elems r ! i = 1)
                 \<and> (elems x ! i \<noteq> 0 \<and> (sigmoid = ''linear'' \<longrightarrow> 0 < elems x ! i)
                      \<longrightarrow> 0 \<le> elems r ! i \<and> elems r ! i < 1))"
proof -
  obtain r where r: "sigmoids x v sigmoid = Inr r"
    and e: "elems r = map (decay sigmoid v) (elems x)"
    using sigmoids_elems [OF assms] by blast
  have "(elems x ! i = 0 \<longrightarrow> decay sigmoid v (elems x ! i) = 1)
        \<and> (elems x ! i \<noteq> 0 \<and> (sigmoid = ''linear'' \<longrightarrow> 0 < elems x ! i)
             \<longrightarrow> 0 \<le> decay sigmoid v (elems x ! i) \<and> decay sigmoid v (elems x ! i) < 1)" for i
    using decay_zero [OF assms(1), of v] decay_range [OF assms, of "elems x ! i"] by simp
  then show ?thesis using r e by simp
qed

section \<open>The claims\<close>

text \<open>
  Claim C1 (the two backends agree and fail in the same cases). The code does not
  do this for the shape \<open>cosine\<close>: on the input \<open>[2.0]\<close> with bounds \<open>(0, 1)\<close>,
  margin \<open>1\<close> and \<open>value_at_margin = 0.1\<close> the array backend returns
  \<open>[0.1]\<close>, and the tensor backend raises, because its \<open>cosine\<close> branch selects
  with \<^verbatim>\<open>np.where\<close> and hands the resulting NumPy array to \<^verbatim>\<open>torch.where\<close>. For the
  seven other shapes \<open>tolerance_value\<close> and \<open>tolerance_tensor_value\<close> give both
  backends the same elements.
\<close>

theorem backends_diverge_on_cosine:
  "tolerance (NdArray [1] [2]) (0, 1) 1 ''cosine'' (1 / 10) = Inr (NdArray [1] [1 / 10])
   \<and> tolerance_tensor (Tensor [1] [2]) (0, 1) 1 ''cosine'' (1 / 10) = Inl TypeError"
proof
  have k: "''cosine'' \<in> set recognized_kinds" "valid_value_at_1 ''cosine'' (1 / 10)"
    by (simp_all add: recognized_kinds_def valid_value_at_1_def)
  have "score 0 1 1 ''cosine'' (1 / 10) (1 + 1) = 1 / 10"
    by (rule score_at_margin(1) [OF k]) simp_all
  then show "tolerance (NdArray [1] [2]) (0, 1) 1 ''cosine'' (1 / 10) = Inr (NdArray [1] [1 / 10])"
    using tolerance_array [OF _ _ k, of 0 1 1 "[1]" "[2]"] by simp
  show "tolerance_tensor (Tensor [1] [2]) (0, 1) 1 ''cosine'' (1 / 10) = Inl TypeError"
    by (rule tolerance_tensor_cosine) simp_all
qed

text \<open>
  Claim C6 (error cases), as stated, says that with \<open>margin > 0\<close> every unrecognised
  shape name fails with the unknown-shape error. The range check on \<open>value_at_1\<close> runs
  before the dispatch on the name, so with \<open>value_at_margin = 0\<close> the name
  \<open>bogus\<close> fails with the invalid-parameter error instead.
\<close>

theorem tolerance_counterexample_unknown_shape:
  "(0::real) \<le> 0 \<and> (0::real) < 1 \<and> ''bogus'' \<notin> set recognized_kinds
   \<and> tolerance (Scalar 0) (0, 0) 1 ''bogus'' 0 = Inl InvalidParameter
   \<and> tolerance (Scalar 0) (0, 0) 1 ''bogus'' 0 \<noteq> Inl UnknownShape"
proof -
  have "tolerance (Scalar 0) (0, 0) 1 ''bogus'' 0 = Inl InvalidParameter"
    by (rule tolerance_sigmoids_error) (simp_all add: sigmoids_invalid_parameter valid_value_at_1_def)
  then show ?thesis by (simp add: recognized_kinds_def)
qed

text \<open>
  Claim C6, amended: \<open>tolerance\<close> fails with invalid-bounds when \<open>lower > upper\<close>;
  with \<open>lower \<le> upper\<close> it fails with invalid-margin when \<open>margin < 0\<close>; with
  \<open>lower \<le> upper\<close> and \<open>margin > 0\<close> it fails with unknown-shape for an unrecognised
  name when \<open>0 < value_at_margin < 1\<close>, and with invalid-parameter whenever
  \<open>value_at_margin\<close> is outside the range checked for the name (for an unrecognised
  name, outside \<open>(0, 1)\<close>); \<open>gaussian\<close> at \<open>0.0\<close> fails with invalid-parameter
  and \<open>linear\<close> at \<open>0.0\<close> succeeds. A failure is a value \<open>Inl e\<close>: it carries
  no result.
\<close>

theorem tolerance_error_cases:
  "(upper < lower \<longrightarrow> tolerance x (lower, upper) margin sigmoid v = Inl InvalidBounds)
   \<and> (lower \<le> upper \<and> margin < 0 \<longrightarrow>
        tolerance x (lower, upper) margin sigmoid v = Inl InvalidMargin)
   \<and> (lower \<le> upper \<and> 0 < margin \<and> sigmoid \<notin> set recognized_kinds \<and> 0 < v \<and> v < 1 \<longrightarrow>
        tolerance x (lower, upper) margin sigmoid v = Inl UnknownShape)
   \<and> (lower \<le> upper \<and> 0 < margin \<and> \<not> valid_value_at_1 sigmoid v \<longrightarrow>
        tolerance x (lower, upper) margin sigmoid v = Inl InvalidParameter)
   \<and> (lower \<le> upper \<and> 0 < margin \<longrightarrow>
        tolerance x (lower, upper) margin ''gaussian'' 0 = Inl InvalidParameter)
   \<and> (lower \<le> upper \<and> 0 < margin \<longrightarrow>
        (\<exists>r. tolerance x (lower, upper) margin ''linear'' 0 = Inr r))"
proof (intro conjI impI)
  assume "upper < lower"
  then show "tolerance x (lower, upper) margin sigmoid v = Inl InvalidBounds"
    by (rule tolerance_invalid_bounds)
next
  assume "lower \<le> upper \<and> margin < 0"
  then show "tolerance x (lower, upper) margin sigmoid v = Inl InvalidMargin"
    by (simp add: tolerance_invalid_margin)
next
  assume a: "lower \<le> upper \<and> 0 < margin \<and> sigmoid \<notin> set recognized_kinds \<and> 0 < v \<and> v < 1"
  then have "sigmoids d v sigmoid = Inl UnknownShape" for d
    by (simp add: sigmoids_unknown_shape)
  then show "tolerance x (lower, upper) margin sigmoid v = Inl UnknownShape"
    using a by (intro tolerance_sigmoids_error) simp_all
next
  assume a: "lower \<le> upper \<and> 0 < margin \<and> \<not> valid_value_at_1 sigmoid v"
  then have "sigmoids d v sigmoid = Inl InvalidParameter" for d
    by (simp add: sigmoids_invalid_parameter)
  then show "tolerance x (lower, upper) margin sigmoid v = Inl InvalidParameter"
    using a by (intro tolerance_sigmoids_error) simp_all
next
  assume a: "lower \<le> upper \<and> 0 < margin"
  have "sigmoids d 0 ''gaussian'' = Inl InvalidParameter" for d
    by (rule sigmoids_invalid_parameter) (simp add: valid_value_at_1_def)
  then show "tolerance x (lower, upper) margin ''gaussian'' 0 = Inl InvalidParameter"
    using a by (intro tolerance_sigmoids_error) simp_all
next
  assume a: "lower \<le> upper \<and> 0 < margin"
  have k: "0 < margin \<longrightarrow> ''linear'' \<in> set recognized_kinds \<and> valid_value_at_1 ''linear'' 0"
    by (simp add: recognized_kinds_def valid_value_at_1_def)
  have "0 \<le> margin" using a by simp
  with a k show "\<exists>r. tolerance x (lower, upper) margin ''linear'' 0 = Inr r"
    using tolerance_value [of lower upper margin "''linear''" 0 x] by blast
qed

theorem tolerance_error_cases_witness:
  "tolerance (Scalar 0) (1, 0) 0 ''gaussian'' (1 / 10) = Inl InvalidBounds
   \<and> tolerance (Scalar 0) (0, 0) (- 1) ''gaussian'' (1 / 10) = Inl InvalidMargin
   \<and> tolerance (Scalar 0) (0, 0) 1 ''bogus'' (1 / 10) = Inl UnknownShape
   \<and> tolerance (Scalar 0) (0, 0) 1 ''tanh_squared'' 1 = Inl InvalidParameter
   \<and> tolerance (Scalar 0) (0, 0) 1 ''gaussian'' 0 = Inl InvalidParameter
   \<and> (\<exists>r. tolerance (Scalar 0) (0, 0) 1 ''linear'' 0 = Inr r)"
  using tolerance_error_cases [of 0 1 "Scalar 0" 0 "''gaussian''" "1 / 10"]
    tolerance_error_cases [of 0 0 "Scalar 0" "- 1" "''gaussian''" "1 / 10"]
    tolerance_error_cases [of 0 0 "Scalar 0" 1 "''bogus''" "1 / 10"]
    tolerance_error_cases [of 0 0 "Scalar 0" 1 "''tanh_squared''" 1]
  by (simp add: recognized_kinds_def valid_value_at_1_def)

text \<open>
  Claim C7: with \<open>margin = 0\<close> and \<open>lower \<le> upper\<close>, \<open>tolerance\<close> returns exactly 1
  for the elements in bounds and exactly 0 for the others, for every string given as
  the shape and every \<open>value_at_margin\<close>; it never fails there.
\<close>

theorem tolerance_zero_margin:
  assumes "lower \<le> upper"
  shows "\<exists>r. tolerance x (lower, upper) 0 sigmoid v = Inr r
           \<and> np_isscalar r = np_isscalar x
           \<and> elems r = map (\<lambda>xi. if lower \<le> xi \<and> xi \<le> upper then 1 else 0) (elems x)"
proof -
  let ?ys = "map (score lower upper 0 sigmoid v) (elems x)"
  have t: "tolerance x (lower, upper) 0 sigmoid v = Inr (result_of x ?ys)"
    by (rule tolerance_value [OF assms]) simp_all
  have e: "elems (result_of x ?ys) = ?ys" by (rule elems_result_of) simp
  have s: "np_isscalar (result_of x ?ys) = np_isscalar x" by (cases x) simp_all
  show ?thesis unfolding t using e s by (simp add: score_margin0)
qed

theorem tolerance_zero_margin_witness:
  "\<exists>r. tolerance (NdArray [3] [- 1, 1 / 2, 4]) (0, 1) 0 ''bogus'' 7 = Inr r
         \<and> \<not> np_isscalar r \<and> elems r = [0, 1, 0]"
  using tolerance_zero_margin [of 0 1 "NdArray [3] [- 1, 1 / 2, 4]" "''bogus''" 7]
  by simp

text \<open>
  Claim C8 (return convention: a plain number for a scalar input of the array backend,
  an array of the same shape otherwise, and always a tensor from the tensor backend).
  The array half holds (\<open>tolerance_return_shape\<close>), and so does the tensor half for
  seven shapes (\<open>tolerance_tensor_value\<close>). For the shape \<open>cosine\<close> with a positive
  margin the tensor backend returns no tensor at all: on the single-element tensor
  \<open>2.0\<close> it raises, where the array backend returns the number \<open>0.1\<close>.
\<close>

theorem tensor_backend_fails_on_cosine_scalar:
  "tolerance (Scalar 2) (0, 1) 1 ''cosine'' (1 / 10) = Inr (Scalar (1 / 10))
   \<and> tolerance_tensor (Tensor [] [2]) (0, 1) 1 ''cosine'' (1 / 10) = Inl TypeError"
proof
  have k: "''cosine'' \<in> set recognized_kinds" "valid_value_at_1 ''cosine'' (1 / 10)"
    by (simp_all add: recognized_kinds_def valid_value_at_1_def)
  have "score 0 1 1 ''cosine'' (1 / 10) (1 + 1) = 1 / 10"
    by (rule score_at_margin(1) [OF k]) simp_all
  then show "tolerance (Scalar 2) (0, 1) 1 ''cosine'' (1 / 10) = Inr (Scalar (1 / 10))"
    using tolerance_scalar [OF _ _ k, of 0 1 1 2] by simp
  show "tolerance_tensor (Tensor [] [2]) (0, 1) 1 ''cosine'' (1 / 10) = Inl TypeError"
    by (rule tolerance_tensor_cosine) simp_all
qed

text \<open>
  Claim C10: both \<open>tolerance\<close> and \<open>tolerance_tensor\<close> report invalid bounds first,
  whatever else is wrong; with valid bounds they report a negative margin next; and
  the invalid-parameter and unknown-shape errors are reported only when the bounds are
  valid and the margin is positive.
\<close>

theorem validation_order:
  "(upper < lower \<longrightarrow>
      tolerance x (lower, upper) margin sigmoid v = Inl InvalidBounds
      \<and> tolerance_tensor t (lower, upper) margin sigmoid v = Inl InvalidBounds)
   \<and> (lower \<le> upper \<and> margin < 0 \<longrightarrow>
        tolerance x (lower, upper) margin sigmoid v = Inl InvalidMargin
        \<and> tolerance_tensor t (lower, upper) margin sigmoid v = Inl InvalidMargin)
   \<and> (tolerance x (lower, upper) margin sigmoid v \<in> {Inl InvalidParameter, Inl UnknownShape}
        \<or> tolerance_tensor t (lower, upper) margin sigmoid v \<in> {Inl InvalidParameter, Inl UnknownShape}
        \<longrightarrow> lower \<le> upper \<and> 0 < margin)"
proof (intro conjI impI)
  assume "upper < lower"
  then show "tolerance x (lower, upper) margin sigmoid v = Inl InvalidBounds"
    and "tolerance_tensor t (lower, upper) margin sigmoid v = Inl InvalidBounds"
    by (simp_all add: tolerance_def tolerance_tensor_def)
next
  assume "lower \<le> upper \<and> margin < 0"
  then show "tolerance x (lower, upper) margin sigmoid v = Inl InvalidMargin"
    and "tolerance_tensor t (lower, upper) margin sigmoid v = Inl InvalidMargin"
    by (simp_all add: tolerance_def tolerance_tensor_def)
next
  assume a: "tolerance x (lower, upper) margin sigmoid v \<in> {Inl InvalidParameter, Inl UnknownShape}
        \<or> tolerance_tensor t (lower, upper) margin sigmoid v \<in> {Inl InvalidParameter, Inl UnknownShape}"
  show "lower \<le> upper"
  proof (rule ccontr)
    assume "\<not> lower \<le> upper"
    then have "tolerance x (lower, upper) margin sigmoid v = Inl InvalidBounds"
      and "tolerance_tensor t (lower, upper) margin sigmoid v = Inl InvalidBounds"
      by (simp_all add: tolerance_def tolerance_tensor_def)
    then show False using a by simp
  qed
  then have le: "lower \<le> upper" .
  show "0 < margin"
  proof (rule ccontr)
    assume n: "\<not> 0 < margin"
    show False
    proof (cases "margin = 0")
      case True
      then show False
        using a tolerance_zero_margin_no_error [OF le, of x sigmoid v]
          tolerance_tensor_zero_margin_no_error [OF le, of t sigmoid v]
        by auto
    next
      case False
      then have "margin < 0" using n by simp
      then have "tolerance x (lower, upper) margin sigmoid v = Inl InvalidMargin"
        and "tolerance_tensor t (lower, upper) margin sigmoid v = Inl InvalidMargin"
        using le by (simp_all add: tolerance_def tolerance_tensor_def)
      then show False using a by simp
    qed
  qed
qed

theorem validation_order_witness:
  "tolerance (Scalar 0) (1, 0) (- 1) ''bogus'' 5 = Inl InvalidBounds
   \<and> tolerance_tensor (Tensor [1] [0]) (1, 0) (- 1) ''bogus'' 5 = Inl InvalidBounds
   \<and> tolerance (Scalar 0) (0, 1) (- 1) ''bogus'' 5 = Inl InvalidMargin
   \<and> tolerance_tensor (Tensor [1] [0]) (0, 1) (- 1) ''bogus'' 5 = Inl InvalidMargin"
  using validation_order [of 0 1 "Scalar 0" "- 1" "''bogus''" 5 "Tensor [1] [0]"]
    validation_order [of 1 0 "Scalar 0" "- 1" "''bogus''" 5 "Tensor [1] [0]"]
  by simp

end
